theory Spec2Isabelle
  imports Main "HOL-Library.Word"
begin

section \<open>Status values\<close>

text \<open>
  \<^verbatim>\<open>Status\<close> and \<^verbatim>\<open>StatusOr<T>\<close> of the code base: a status is either OK or carries
  an error code with a message; a \<^verbatim>\<open>StatusOr<T>\<close> holds either a non-OK status or a
  value. Only the codes named by the specification are listed.
\<close>

datatype StatusCode =
  NOT_FOUND | ALREADY_EXIST | CORRUPTION | INVALID_ARGUMENT | IO_ERROR | INTERNAL_ERROR

datatype Error = Error (code: StatusCode) (message: string)

datatype Status = OK | Failed Error

type_synonym 'a StatusOr = "Error + 'a"

section \<open>Protobuf messages and schema objects used by the tablet\<close>

text \<open>
  The messages are declared in \<^verbatim>\<open>gen_cpp/lake_types.pb.h\<close>, which is not part of the
  sources at hand; the records below hold the fields that \<^verbatim>\<open>tablet.cpp\<close> reads or
  writes. The content of a \<^verbatim>\<open>DeletePredicatePB\<close> is never inspected by the tablet, so
  it is the type parameter \<open>'p\<close>. An optional message field is an \<open>option\<close>
  (\<^verbatim>\<open>has_delete_predicate()\<close> is \<open>\<noteq> None\<close>); scalar fields carry their protobuf
  default in a fresh message.
\<close>

datatype KeysType = DUP_KEYS | UNIQUE_KEYS | AGG_KEYS | PRIMARY_KEYS

record TabletSchemaPB =
  pb_schema_id :: "64 word"
  pb_keys_type :: KeysType

record 'p RowsetMetadataPB =
  rs_overlapped :: bool
  rs_num_rows :: "64 word"
  rs_data_size :: "64 word"
  rs_segments :: "string list"
  rs_delete_predicate :: "'p option"

record 'p OpWrite =
  ow_rowset :: "'p RowsetMetadataPB option"

record 'p TxnLog =
  log_tablet_id :: "64 word"
  log_txn_id :: "64 word"
  log_op_write :: "'p OpWrite option"

record 'p TabletMetadata =
  md_id :: "64 word"
  md_version :: "64 word"
  md_schema :: TabletSchemaPB
  md_rowsets :: "'p RowsetMetadataPB list"

text \<open>Freshly constructed messages: every field at its protobuf default.\<close>

definition RowsetMetadataPB_new :: "'p RowsetMetadataPB" where
  "RowsetMetadataPB_new =
     \<lparr>rs_overlapped = False, rs_num_rows = 0, rs_data_size = 0, rs_segments = [],
      rs_delete_predicate = None\<rparr>"

definition OpWrite_new :: "'p OpWrite" where
  "OpWrite_new = \<lparr>ow_rowset = None\<rparr>"

definition TxnLog_new :: "'p TxnLog" where
  "TxnLog_new = \<lparr>log_tablet_id = 0, log_txn_id = 0, log_op_write = None\<rparr>"

definition has_delete_predicate :: "'p RowsetMetadataPB \<Rightarrow> bool" where
  "has_delete_predicate r = (rs_delete_predicate r \<noteq> None)"

text \<open>
  \<^verbatim>\<open>TabletSchema\<close> (\<^verbatim>\<open>storage/tablet_schema.h\<close>, not at hand) is built from a
  \<^verbatim>\<open>TabletSchemaPB\<close>; the tablet only asks it for its key type.
\<close>

datatype TabletSchema = TabletSchema (schema_pb: TabletSchemaPB)

definition keys_type :: "TabletSchema \<Rightarrow> KeysType" where
  "keys_type sch = pb_keys_type (schema_pb sch)"

section \<open>Collaborators of the tablet\<close>

text \<open>
  \<^verbatim>\<open>TabletManager\<close> and \<^verbatim>\<open>LocationProvider\<close> are reached through the pointers
  \<^verbatim>\<open>_mgr\<close> and \<^verbatim>\<open>_location_provider\<close>; their code is not at hand, so each method
  the tablet calls is a field of a record of operations. A manager method works on the
  manager's own state \<open>'s\<close> (store and caches) and returns the state it leaves.

  A parameter \<^verbatim>\<open>int64_t* version_hint\<close> is an \<open>option\<close> on the way in (\<open>None\<close> for
  \<^verbatim>\<open>nullptr\<close>, otherwise the value pointed to); the method returns, next to its
  result, the value it leaves at that address. The two overloads of
  \<^verbatim>\<open>put_tablet_metadata\<close> and of \<^verbatim>\<open>put_txn_log\<close> (by reference, by shared pointer)
  are separate fields. The location methods are const and return a string.
\<close>

record ('s, 'p) TabletManager =
  mgr_put_tablet_metadata :: "'p TabletMetadata \<Rightarrow> 's \<Rightarrow> Status \<times> 's"
  mgr_put_tablet_metadata_ptr :: "'p TabletMetadata \<Rightarrow> 's \<Rightarrow> Status \<times> 's"
  mgr_get_tablet_metadata :: "64 word \<Rightarrow> 64 word \<Rightarrow> 's \<Rightarrow> 'p TabletMetadata StatusOr \<times> 's"
  mgr_delete_tablet_metadata :: "64 word \<Rightarrow> 64 word \<Rightarrow> 's \<Rightarrow> Status \<times> 's"
  mgr_put_txn_log :: "'p TxnLog \<Rightarrow> 's \<Rightarrow> Status \<times> 's"
  mgr_put_txn_log_ptr :: "'p TxnLog \<Rightarrow> 's \<Rightarrow> Status \<times> 's"
  mgr_put_txn_slog :: "'p TxnLog \<Rightarrow> 's \<Rightarrow> Status \<times> 's"
  mgr_get_txn_log :: "64 word \<Rightarrow> 64 word \<Rightarrow> 's \<Rightarrow> 'p TxnLog StatusOr \<times> 's"
  mgr_get_txn_slog :: "64 word \<Rightarrow> 64 word \<Rightarrow> 's \<Rightarrow> 'p TxnLog StatusOr \<times> 's"
  mgr_get_txn_vlog :: "64 word \<Rightarrow> 64 word \<Rightarrow> 's \<Rightarrow> 'p TxnLog StatusOr \<times> 's"
  mgr_get_tablet_schema ::
    "64 word \<Rightarrow> 64 word option \<Rightarrow> 's \<Rightarrow> TabletSchema StatusOr \<times> 64 word \<times> 's"
  mgr_get_tablet_schema_by_id :: "64 word \<Rightarrow> 64 word \<Rightarrow> 's \<Rightarrow> TabletSchema StatusOr \<times> 's"
  mgr_get_tablet_data_size ::
    "64 word \<Rightarrow> 64 word option \<Rightarrow> 's \<Rightarrow> 64 word StatusOr \<times> 64 word \<times> 's"
  mgr_get_tablet_num_rows :: "64 word \<Rightarrow> 64 word \<Rightarrow> 's \<Rightarrow> 64 word StatusOr \<times> 's"
  mgr_txn_slog_location :: "64 word \<Rightarrow> 64 word \<Rightarrow> string"
  mgr_sst_location :: "64 word \<Rightarrow> string \<Rightarrow> string"

record LocationProvider =
  lp_tablet_metadata_location :: "64 word \<Rightarrow> 64 word \<Rightarrow> string"
  lp_metadata_root_location :: "64 word \<Rightarrow> string"
  lp_txn_log_location :: "64 word \<Rightarrow> 64 word \<Rightarrow> string"
  lp_txn_vlog_location :: "64 word \<Rightarrow> 64 word \<Rightarrow> string"
  lp_segment_location :: "64 word \<Rightarrow> string \<Rightarrow> string"
  lp_del_location :: "64 word \<Rightarrow> string \<Rightarrow> string"
  lp_delvec_location :: "64 word \<Rightarrow> string \<Rightarrow> string"
  lp_root_location :: "64 word \<Rightarrow> string"

section \<open>The tablet\<close>

text \<open>
  The members of \<^verbatim>\<open>class Tablet\<close> that \<^verbatim>\<open>tablet.cpp\<close> uses: \<^verbatim>\<open>_mgr\<close>, \<^verbatim>\<open>_id\<close>,
  \<^verbatim>\<open>_location_provider\<close>, \<^verbatim>\<open>_version_hint\<close>, and the two shared pointers
  \<^verbatim>\<open>_tablet_schema\<close> and \<^verbatim>\<open>_tablet_metadata\<close> (\<open>None\<close> when null).
\<close>

record ('s, 'p) Tablet =
  m_mgr :: "('s, 'p) TabletManager"
  m_id :: "64 word"
  m_location_provider :: LocationProvider
  m_version_hint :: "64 word"
  m_tablet_schema :: "TabletSchema option"
  m_tablet_metadata :: "'p TabletMetadata option"

subsection \<open>Metadata and transaction logs\<close>

definition put_metadata :: "('s, 'p) Tablet \<Rightarrow> 'p TabletMetadata \<Rightarrow> 's \<Rightarrow> Status \<times> 's" where
  "put_metadata t metadata s = mgr_put_tablet_metadata (m_mgr t) metadata s"

definition put_metadata_ptr :: "('s, 'p) Tablet \<Rightarrow> 'p TabletMetadata \<Rightarrow> 's \<Rightarrow> Status \<times> 's" where
  "put_metadata_ptr t metadata s = mgr_put_tablet_metadata_ptr (m_mgr t) metadata s"

definition get_metadata ::
  "('s, 'p) Tablet \<Rightarrow> 64 word \<Rightarrow> 's \<Rightarrow> 'p TabletMetadata StatusOr \<times> 's" where
  "get_metadata t version s = mgr_get_tablet_metadata (m_mgr t) (m_id t) version s"

definition delete_metadata :: "('s, 'p) Tablet \<Rightarrow> 64 word \<Rightarrow> 's \<Rightarrow> Status \<times> 's" where
  "delete_metadata t version s = mgr_delete_tablet_metadata (m_mgr t) (m_id t) version s"

definition put_txn_log :: "('s, 'p) Tablet \<Rightarrow> 'p TxnLog \<Rightarrow> 's \<Rightarrow> Status \<times> 's" where
  "put_txn_log t log s = mgr_put_txn_log (m_mgr t) log s"

definition put_txn_log_ptr :: "('s, 'p) Tablet \<Rightarrow> 'p TxnLog \<Rightarrow> 's \<Rightarrow> Status \<times> 's" where
  "put_txn_log_ptr t log s = mgr_put_txn_log_ptr (m_mgr t) log s"

definition put_txn_slog :: "('s, 'p) Tablet \<Rightarrow> 'p TxnLog \<Rightarrow> 's \<Rightarrow> Status \<times> 's" where
  "put_txn_slog t log s = mgr_put_txn_slog (m_mgr t) log s"

definition get_txn_log :: "('s, 'p) Tablet \<Rightarrow> 64 word \<Rightarrow> 's \<Rightarrow> 'p TxnLog StatusOr \<times> 's" where
  "get_txn_log t txn_id s = mgr_get_txn_log (m_mgr t) (m_id t) txn_id s"

definition get_txn_slog :: "('s, 'p) Tablet \<Rightarrow> 64 word \<Rightarrow> 's \<Rightarrow> 'p TxnLog StatusOr \<times> 's" where
  "get_txn_slog t txn_id s = mgr_get_txn_slog (m_mgr t) (m_id t) txn_id s"

definition get_txn_vlog :: "('s, 'p) Tablet \<Rightarrow> 64 word \<Rightarrow> 's \<Rightarrow> 'p TxnLog StatusOr \<times> 's" where
  "get_txn_vlog t version s = mgr_get_txn_vlog (m_mgr t) (m_id t) version s"

subsection \<open>Delete predicates\<close>

text \<open>
  The loop of \<^verbatim>\<open>has_delete_predicates\<close> over \<^verbatim>\<open>metadata->rowsets()\<close>: it returns
  true at the first rowset with a delete predicate and false after the last one.
\<close>

fun scan_delete_predicates :: "'p RowsetMetadataPB list \<Rightarrow> bool" where
  "scan_delete_predicates [] = False"
| "scan_delete_predicates (rowset # rest) =
     (if has_delete_predicate rowset then True else scan_delete_predicates rest)"

definition has_delete_predicates ::
  "('s, 'p) Tablet \<Rightarrow> 64 word \<Rightarrow> 's \<Rightarrow> bool StatusOr \<times> 's" where
  "has_delete_predicates t version s =
     (case get_metadata t version s of
        (Inl e, s') \<Rightarrow> (Inl e, s')
      | (Inr metadata, s') \<Rightarrow> (Inr (scan_delete_predicates (md_rowsets metadata)), s'))"

subsection \<open>Schema lookup\<close>

text \<open>
  \<^verbatim>\<open>tablet_schema() const\<close> asks the manager with a null hint and turns a failed
  lookup into a null pointer (\<open>None\<close>). \<^verbatim>\<open>get_schema()\<close> looks at the two cached
  pointers first and hands \<^verbatim>\<open>&_version_hint\<close> to the manager otherwise, so the hint
  member holds afterwards what the manager left there.
\<close>

definition tablet_schema :: "('s, 'p) Tablet \<Rightarrow> 's \<Rightarrow> TabletSchema option \<times> 's" where
  "tablet_schema t s =
     (case mgr_get_tablet_schema (m_mgr t) (m_id t) None s of
        (Inl e, h, s') \<Rightarrow> (None, s')
      | (Inr sch, h, s') \<Rightarrow> (Some sch, s'))"

definition get_schema ::
  "('s, 'p) Tablet \<Rightarrow> 's \<Rightarrow> TabletSchema StatusOr \<times> ('s, 'p) Tablet \<times> 's" where
  "get_schema t s =
     (case m_tablet_schema t of
        Some sch \<Rightarrow> (Inr sch, t, s)
      | None \<Rightarrow>
          (case m_tablet_metadata t of
             Some metadata \<Rightarrow> (Inr (TabletSchema (md_schema metadata)), t, s)
           | None \<Rightarrow>
               (case mgr_get_tablet_schema (m_mgr t) (m_id t) (Some (m_version_hint t)) s of
                  (r, h, s') \<Rightarrow> (r, t\<lparr>m_version_hint := h\<rparr>, s'))))"

definition get_schema_by_id ::
  "('s, 'p) Tablet \<Rightarrow> 64 word \<Rightarrow> 's \<Rightarrow> TabletSchema StatusOr \<times> 's" where
  "get_schema_by_id t schema_id s = mgr_get_tablet_schema_by_id (m_mgr t) (m_id t) schema_id s"

subsection \<open>Writers\<close>

text \<open>
  The four writer classes, each with the arguments its constructor is given, in the
  order of the call. A \<^verbatim>\<open>ThreadPool*\<close> is an address, \<open>None\<close> for \<^verbatim>\<open>nullptr\<close>.
  \<^verbatim>\<open>WriterType\<close> has the two enumerators the code compares with, so the
  \<^verbatim>\<open>DCHECK(type == kVertical)\<close> of each else-branch holds whenever it is reached.
\<close>

datatype WriterType = kHorizontal | kVertical

type_synonym ThreadPool_ptr = "nat option"

datatype ('s, 'p) TabletWriter =
    HorizontalPkTabletWriter
      "('s, 'p) TabletManager" "64 word" TabletSchema "64 word" ThreadPool_ptr bool
  | VerticalPkTabletWriter
      "('s, 'p) TabletManager" "64 word" TabletSchema "64 word" "32 word" ThreadPool_ptr bool
  | HorizontalGeneralTabletWriter
      "('s, 'p) TabletManager" "64 word" TabletSchema "64 word" bool ThreadPool_ptr
  | VerticalGeneralTabletWriter
      "('s, 'p) TabletManager" "64 word" TabletSchema "64 word" "32 word" bool ThreadPool_ptr

definition new_writer ::
  "('s, 'p) Tablet \<Rightarrow> WriterType \<Rightarrow> 64 word \<Rightarrow> 32 word \<Rightarrow> ThreadPool_ptr \<Rightarrow> bool \<Rightarrow> 's \<Rightarrow>
     ('s, 'p) TabletWriter StatusOr \<times> ('s, 'p) Tablet \<times> 's" where
  "new_writer t type txn_id max_rows_per_segment flush_pool is_compaction s =
     (case get_schema t s of
        (Inl e, t', s') \<Rightarrow> (Inl e, t', s')
      | (Inr the_schema, t', s') \<Rightarrow>
          (if keys_type the_schema = PRIMARY_KEYS then
             (if type = kHorizontal then
                (Inr (HorizontalPkTabletWriter (m_mgr t') (m_id t') the_schema txn_id
                        flush_pool is_compaction), t', s')
              else
                (Inr (VerticalPkTabletWriter (m_mgr t') (m_id t') the_schema txn_id
                        max_rows_per_segment flush_pool is_compaction), t', s'))
           else
             (if type = kHorizontal then
                (Inr (HorizontalGeneralTabletWriter (m_mgr t') (m_id t') the_schema txn_id
                        is_compaction flush_pool), t', s')
              else
                (Inr (VerticalGeneralTabletWriter (m_mgr t') (m_id t') the_schema txn_id
                        max_rows_per_segment is_compaction flush_pool), t', s'))))"

subsection \<open>Rowsets\<close>

text \<open>
  \<^verbatim>\<open>Rowset::get_rowsets(mgr, metadata)\<close> (\<^verbatim>\<open>storage/lake/rowset.h\<close>, not at hand)
  is the parameter \<open>extract\<close>; \<open>'r\<close> stands for \<^verbatim>\<open>RowsetPtr\<close>.
\<close>

definition get_rowsets_of ::
  "(('s, 'p) TabletManager \<Rightarrow> 'p TabletMetadata \<Rightarrow> 'r list) \<Rightarrow>
     ('s, 'p) Tablet \<Rightarrow> 'p TabletMetadata \<Rightarrow> 'r list" where
  "get_rowsets_of extract t metadata = extract (m_mgr t) metadata"

definition get_rowsets ::
  "(('s, 'p) TabletManager \<Rightarrow> 'p TabletMetadata \<Rightarrow> 'r list) \<Rightarrow>
     ('s, 'p) Tablet \<Rightarrow> 64 word \<Rightarrow> 's \<Rightarrow> 'r list StatusOr \<times> 's" where
  "get_rowsets extract t version s =
     (case get_metadata t version s of
        (Inl e, s') \<Rightarrow> (Inl e, s')
      | (Inr tablet_metadata, s') \<Rightarrow> (Inr (get_rowsets_of extract t tablet_metadata), s'))"

subsection \<open>Locations\<close>

definition metadata_location :: "('s, 'p) Tablet \<Rightarrow> 64 word \<Rightarrow> string" where
  "metadata_location t version =
     lp_tablet_metadata_location (m_location_provider t) (m_id t) version"

definition metadata_root_location :: "('s, 'p) Tablet \<Rightarrow> string" where
  "metadata_root_location t = lp_metadata_root_location (m_location_provider t) (m_id t)"

definition txn_log_location :: "('s, 'p) Tablet \<Rightarrow> 64 word \<Rightarrow> string" where
  "txn_log_location t txn_id = lp_txn_log_location (m_location_provider t) (m_id t) txn_id"

definition txn_slog_location :: "('s, 'p) Tablet \<Rightarrow> 64 word \<Rightarrow> string" where
  "txn_slog_location t txn_id = mgr_txn_slog_location (m_mgr t) (m_id t) txn_id"

definition txn_vlog_location :: "('s, 'p) Tablet \<Rightarrow> 64 word \<Rightarrow> string" where
  "txn_vlog_location t version = lp_txn_vlog_location (m_location_provider t) (m_id t) version"

definition segment_location :: "('s, 'p) Tablet \<Rightarrow> string \<Rightarrow> string" where
  "segment_location t segment_name =
     lp_segment_location (m_location_provider t) (m_id t) segment_name"

definition del_location :: "('s, 'p) Tablet \<Rightarrow> string \<Rightarrow> string" where
  "del_location t del_name = lp_del_location (m_location_provider t) (m_id t) del_name"

definition delvec_location :: "('s, 'p) Tablet \<Rightarrow> string \<Rightarrow> string" where
  "delvec_location t delvec_name =
     lp_delvec_location (m_location_provider t) (m_id t) delvec_name"

definition sst_location :: "('s, 'p) Tablet \<Rightarrow> string \<Rightarrow> string" where
  "sst_location t sst_name = mgr_sst_location (m_mgr t) (m_id t) sst_name"

definition root_location :: "('s, 'p) Tablet \<Rightarrow> string" where
  "root_location t = lp_root_location (m_location_provider t) (m_id t)"

subsection \<open>Deleting by predicate\<close>

text \<open>
  \<^verbatim>\<open>delete_data\<close> fills a fresh \<^verbatim>\<open>TxnLog\<close> setter by setter
  (\<^verbatim>\<open>mutable_op_write()\<close>, \<^verbatim>\<open>mutable_rowset()\<close> and \<^verbatim>\<open>mutable_delete_predicate()\<close>
  create the sub-message they return) and hands the shared pointer to
  \<^verbatim>\<open>put_txn_log\<close>.
\<close>

definition delete_data :: "('s, 'p) Tablet \<Rightarrow> 64 word \<Rightarrow> 'p \<Rightarrow> 's \<Rightarrow> Status \<times> 's" where
  "delete_data t txn_id delete_predicate s =
     (let txn_log = TxnLog_new\<lparr>log_tablet_id := m_id t\<rparr>;
          txn_log = txn_log\<lparr>log_txn_id := txn_id\<rparr>;
          rowset = RowsetMetadataPB_new\<lparr>rs_overlapped := False\<rparr>;
          rowset = rowset\<lparr>rs_num_rows := 0\<rparr>;
          rowset = rowset\<lparr>rs_data_size := 0\<rparr>;
          rowset = rowset\<lparr>rs_delete_predicate := Some delete_predicate\<rparr>;
          op_write = OpWrite_new\<lparr>ow_rowset := Some rowset\<rparr>;
          txn_log = txn_log\<lparr>log_op_write := Some op_write\<rparr>
      in put_txn_log_ptr t txn_log s)"

subsection \<open>Statistics\<close>

text \<open>
  What \<^verbatim>\<open>LOG(WARNING) << ...\<close> writes is returned as a list of log entries, each the
  sequence of the streamed pieces. \<^verbatim>\<open>data_size()\<close> hands \<^verbatim>\<open>&_version_hint\<close> to the
  manager. \<^verbatim>\<open>num_rows() const\<close> starts with \<^verbatim>\<open>DCHECK(_version_hint != 0)\<close>: the
  flag \<open>dcheck_on\<close> tells whether the build compiles DCHECKs in, and \<open>None\<close> is the
  abort of a failed check. Both return 64-bit values; the conversion of the looked-up
  row count to \<^verbatim>\<open>size_t\<close> keeps the 64 bits as they are.
\<close>

datatype LogSeverity = INFO | WARNING | ERROR | FATAL

datatype LogPiece = Str string | I64 "64 word" | St Error

record LogEntry =
  log_severity :: LogSeverity
  log_pieces :: "LogPiece list"

definition data_size ::
  "('s, 'p) Tablet \<Rightarrow> 's \<Rightarrow> 64 word \<times> LogEntry list \<times> ('s, 'p) Tablet \<times> 's" where
  "data_size t s =
     (case mgr_get_tablet_data_size (m_mgr t) (m_id t) (Some (m_version_hint t)) s of
        (Inr v, h, s') \<Rightarrow> (v, [], t\<lparr>m_version_hint := h\<rparr>, s')
      | (Inl e, h, s') \<Rightarrow>
          (0,
           [\<lparr>log_severity = WARNING,
             log_pieces = [Str ''failed to get tablet '', I64 (m_id t), Str '' data size: '', St e]\<rparr>],
           t\<lparr>m_version_hint := h\<rparr>, s'))"

definition num_rows ::
  "bool \<Rightarrow> ('s, 'p) Tablet \<Rightarrow> 's \<Rightarrow> (64 word \<times> LogEntry list \<times> 's) option" where
  "num_rows dcheck_on t s =
     (if dcheck_on \<and> \<not> (m_version_hint t \<noteq> 0) then None
      else
        (case mgr_get_tablet_num_rows (m_mgr t) (m_id t) (m_version_hint t) s of
           (Inr n, s') \<Rightarrow> Some (n, [], s')
         | (Inl e, s') \<Rightarrow>
             Some (0,
                   [\<lparr>log_severity = WARNING,
                     log_pieces = [Str ''failed to get tablet rows num'', I64 (m_id t),
                                   Str ''num rows: '', St e]\<rparr>],
                   s')))"

section \<open>An in-memory metadata store\<close>

text \<open>
  Modelled from the spec: the manager over the Metadata Store Interface
  (\<^verbatim>\<open>storage/lake/tablet_manager.cpp\<close> is not at hand). Objects are keyed by
  (tablet, version) or (tablet, transaction id); \<open>get\<close> of a missing key is NotFound;
  writing a pending log whose transaction id is taken is AlreadyExists; the statistics
  are the sums over the rowsets of the snapshot at the given version. It serves as the
  concrete manager on which the theorems below are instantiated.
\<close>

record 'p Store =
  st_metadata :: "64 word \<times> 64 word \<Rightarrow> 'p TabletMetadata option"
  st_txn_logs :: "64 word \<times> 64 word \<Rightarrow> 'p TxnLog option"
  st_txn_slogs :: "64 word \<times> 64 word \<Rightarrow> 'p TxnLog option"
  st_txn_vlogs :: "64 word \<times> 64 word \<Rightarrow> 'p TxnLog option"
  st_schemas :: "64 word \<Rightarrow> TabletSchema option"

definition not_found :: "string \<Rightarrow> Error" where
  "not_found what = Error NOT_FOUND what"

definition store_put_metadata :: "'p TabletMetadata \<Rightarrow> 'p Store \<Rightarrow> Status \<times> 'p Store" where
  "store_put_metadata md s =
     (OK, s\<lparr>st_metadata := (st_metadata s)((md_id md, md_version md) \<mapsto> md)\<rparr>)"

definition store_get_metadata ::
  "64 word \<Rightarrow> 64 word \<Rightarrow> 'p Store \<Rightarrow> 'p TabletMetadata StatusOr \<times> 'p Store" where
  "store_get_metadata tid version s =
     (case st_metadata s (tid, version) of
        None \<Rightarrow> (Inl (not_found ''tablet metadata''), s)
      | Some md \<Rightarrow> (Inr md, s))"

definition store_delete_metadata :: "64 word \<Rightarrow> 64 word \<Rightarrow> 'p Store \<Rightarrow> Status \<times> 'p Store" where
  "store_delete_metadata tid version s =
     (OK, s\<lparr>st_metadata := (st_metadata s)((tid, version) := None)\<rparr>)"

definition store_put_txn_log :: "'p TxnLog \<Rightarrow> 'p Store \<Rightarrow> Status \<times> 'p Store" where
  "store_put_txn_log log s =
     (let k = (log_tablet_id log, log_txn_id log) in
      if st_txn_logs s k \<noteq> None \<or> st_txn_slogs s k \<noteq> None
      then (Failed (Error ALREADY_EXIST ''txn log''), s)
      else (OK, s\<lparr>st_txn_logs := (st_txn_logs s)(k \<mapsto> log)\<rparr>))"

definition store_put_txn_slog :: "'p TxnLog \<Rightarrow> 'p Store \<Rightarrow> Status \<times> 'p Store" where
  "store_put_txn_slog log s =
     (OK, s\<lparr>st_txn_slogs := (st_txn_slogs s)((log_tablet_id log, log_txn_id log) \<mapsto> log)\<rparr>)"

definition store_get_log ::
  "('p Store \<Rightarrow> 64 word \<times> 64 word \<Rightarrow> 'p TxnLog option) \<Rightarrow>
     64 word \<Rightarrow> 64 word \<Rightarrow> 'p Store \<Rightarrow> 'p TxnLog StatusOr \<times> 'p Store" where
  "store_get_log stage tid k s =
     (case stage s (tid, k) of
        None \<Rightarrow> (Inl (not_found ''txn log''), s)
      | Some log \<Rightarrow> (Inr log, s))"

definition store_get_schema ::
  "64 word \<Rightarrow> 64 word option \<Rightarrow> 'p Store \<Rightarrow> TabletSchema StatusOr \<times> 64 word \<times> 'p Store" where
  "store_get_schema tid hint s =
     (case hint of
        None \<Rightarrow> (Inl (not_found ''tablet schema''), 0, s)
      | Some h \<Rightarrow>
          (case st_metadata s (tid, h) of
             None \<Rightarrow> (Inl (not_found ''tablet schema''), h, s)
           | Some md \<Rightarrow> (Inr (TabletSchema (md_schema md)), h, s)))"

definition store_get_schema_by_id ::
  "64 word \<Rightarrow> 64 word \<Rightarrow> 'p Store \<Rightarrow> TabletSchema StatusOr \<times> 'p Store" where
  "store_get_schema_by_id tid schema_id s =
     (case st_schemas s schema_id of
        None \<Rightarrow> (Inl (not_found ''tablet schema''), s)
      | Some sch \<Rightarrow> (Inr sch, s))"

definition store_get_data_size ::
  "64 word \<Rightarrow> 64 word option \<Rightarrow> 'p Store \<Rightarrow> 64 word StatusOr \<times> 64 word \<times> 'p Store" where
  "store_get_data_size tid hint s =
     (case hint of
        None \<Rightarrow> (Inl (not_found ''tablet metadata''), 0, s)
      | Some h \<Rightarrow>
          (case st_metadata s (tid, h) of
             None \<Rightarrow> (Inl (not_found ''tablet metadata''), h, s)
           | Some md \<Rightarrow> (Inr (sum_list (map rs_data_size (md_rowsets md))), h, s)))"

definition store_get_num_rows ::
  "64 word \<Rightarrow> 64 word \<Rightarrow> 'p Store \<Rightarrow> 64 word StatusOr \<times> 'p Store" where
  "store_get_num_rows tid version s =
     (case st_metadata s (tid, version) of
        None \<Rightarrow> (Inl (not_found ''tablet metadata''), s)
      | Some md \<Rightarrow> (Inr (sum_list (map rs_num_rows (md_rowsets md))), s))"

text \<open>
  Modelled from the spec: the Location/Naming component, deterministic key derivation
  from (tablet id, numeric id, optional name). The layout of the keys is a choice of
  this model.
\<close>

fun decimal :: "nat \<Rightarrow> string" where
  "decimal n =
     (if n < 10 then [char_of (48 + n)]
      else decimal (n div 10) @ [char_of (48 + n mod 10)])"

definition key_of :: "string \<Rightarrow> 64 word \<Rightarrow> string \<Rightarrow> string" where
  "key_of kind tid name = ''/'' @ decimal (unat tid) @ ''/'' @ kind @ ''/'' @ name"

definition store_location_provider :: LocationProvider where
  "store_location_provider =
     \<lparr>lp_tablet_metadata_location = (\<lambda>tid v. key_of ''meta'' tid (decimal (unat v))),
      lp_metadata_root_location = (\<lambda>tid. key_of ''meta'' tid []),
      lp_txn_log_location = (\<lambda>tid x. key_of ''log'' tid (decimal (unat x))),
      lp_txn_vlog_location = (\<lambda>tid v. key_of ''vlog'' tid (decimal (unat v))),
      lp_segment_location = key_of ''data'',
      lp_del_location = key_of ''del'',
      lp_delvec_location = key_of ''delvec'',
      lp_root_location = (\<lambda>tid. ''/'' @ decimal (unat tid))\<rparr>"

definition store_mgr :: "('p Store, 'p) TabletManager" where
  "store_mgr =
     \<lparr>mgr_put_tablet_metadata = store_put_metadata,
      mgr_put_tablet_metadata_ptr = store_put_metadata,
      mgr_get_tablet_metadata = store_get_metadata,
      mgr_delete_tablet_metadata = store_delete_metadata,
      mgr_put_txn_log = store_put_txn_log,
      mgr_put_txn_log_ptr = store_put_txn_log,
      mgr_put_txn_slog = store_put_txn_slog,
      mgr_get_txn_log = store_get_log st_txn_logs,
      mgr_get_txn_slog = store_get_log st_txn_slogs,
      mgr_get_txn_vlog = store_get_log st_txn_vlogs,
      mgr_get_tablet_schema = store_get_schema,
      mgr_get_tablet_schema_by_id = store_get_schema_by_id,
      mgr_get_tablet_data_size = store_get_data_size,
      mgr_get_tablet_num_rows = store_get_num_rows,
      mgr_txn_slog_location = (\<lambda>tid x. key_of ''slog'' tid (decimal (unat x))),
      mgr_sst_location = key_of ''sst''\<rparr>"

subsection \<open>A small tablet history\<close>

text \<open>
  Tablet 7 of a primary-key table. Version 1 holds one rowset of 1000 rows; version 2
  adds the zero-row rowset of a delete predicate; no other version exists. Tablet 8 is
  freshly initialised: its version 1 has no rowsets. Delete predicates are strings
  here. The handles below differ in what they have cached; \<open>failing_mgr\<close> is the
  store with a schema lookup that always fails.
\<close>

definition pk_schema_pb :: TabletSchemaPB where
  "pk_schema_pb = \<lparr>pb_schema_id = 11, pb_keys_type = PRIMARY_KEYS\<rparr>"

definition dup_schema_pb :: TabletSchemaPB where
  "dup_schema_pb = \<lparr>pb_schema_id = 12, pb_keys_type = DUP_KEYS\<rparr>"

definition data_rowset :: "string RowsetMetadataPB" where
  "data_rowset =
     \<lparr>rs_overlapped = False, rs_num_rows = 1000, rs_data_size = 4096,
      rs_segments = [''a.dat''], rs_delete_predicate = None\<rparr>"

definition pred_rowset :: "string RowsetMetadataPB" where
  "pred_rowset =
     \<lparr>rs_overlapped = False, rs_num_rows = 0, rs_data_size = 0,
      rs_segments = [], rs_delete_predicate = Some ''k < 5''\<rparr>"

definition meta_v1 :: "string TabletMetadata" where
  "meta_v1 = \<lparr>md_id = 7, md_version = 1, md_schema = pk_schema_pb, md_rowsets = [data_rowset]\<rparr>"

definition meta_v2 :: "string TabletMetadata" where
  "meta_v2 =
     \<lparr>md_id = 7, md_version = 2, md_schema = pk_schema_pb,
      md_rowsets = [data_rowset, pred_rowset]\<rparr>"

definition meta_fresh :: "string TabletMetadata" where
  "meta_fresh = \<lparr>md_id = 8, md_version = 1, md_schema = dup_schema_pb, md_rowsets = []\<rparr>"

definition empty_store :: "string Store" where
  "empty_store =
     \<lparr>st_metadata = Map.empty, st_txn_logs = Map.empty, st_txn_slogs = Map.empty,
      st_txn_vlogs = Map.empty, st_schemas = Map.empty\<rparr>"

definition store_v2 :: "string Store" where
  "store_v2 =
     empty_store\<lparr>st_metadata := [(7, 1) \<mapsto> meta_v1, (7, 2) \<mapsto> meta_v2, (8, 1) \<mapsto> meta_fresh]\<rparr>"

definition tablet7 :: "(string Store, string) Tablet" where
  "tablet7 =
     \<lparr>m_mgr = store_mgr, m_id = 7, m_location_provider = store_location_provider,
      m_version_hint = 0, m_tablet_schema = None, m_tablet_metadata = None\<rparr>"

definition tablet8 :: "(string Store, string) Tablet" where
  "tablet8 = tablet7\<lparr>m_id := 8\<rparr>"

definition tablet7_pk :: "(string Store, string) Tablet" where
  "tablet7_pk = tablet7\<lparr>m_tablet_schema := Some (TabletSchema pk_schema_pb)\<rparr>"

definition tablet7_dup :: "(string Store, string) Tablet" where
  "tablet7_dup = tablet7\<lparr>m_tablet_metadata := Some (meta_v1\<lparr>md_schema := dup_schema_pb\<rparr>)\<rparr>"

definition failing_mgr :: "(string Store, string) TabletManager" where
  "failing_mgr =
     store_mgr\<lparr>mgr_get_tablet_schema := (\<lambda>tid hint s. (Inl (Error IO_ERROR ''store down''), 0, s))\<rparr>"

section \<open>Properties\<close>

subsection \<open>Shared facts\<close>

lemma scan_delete_predicates_iff:
  "scan_delete_predicates rs \<longleftrightarrow> (\<exists>r \<in> set rs. has_delete_predicate r)"
  by (induction rs) auto

lemma get_schema_keeps_identity:
  "get_schema t s = (r, t', s') \<Longrightarrow> m_mgr t' = m_mgr t \<and> m_id t' = m_id t"
  by (auto simp: get_schema_def split: option.splits prod.splits)

lemma get_metadata_v1: "get_metadata tablet7 1 store_v2 = (Inr meta_v1, store_v2)"
  by (simp add: get_metadata_def tablet7_def store_mgr_def store_get_metadata_def store_v2_def)

lemma get_metadata_v2: "get_metadata tablet7 2 store_v2 = (Inr meta_v2, store_v2)"
  by (simp add: get_metadata_def tablet7_def store_mgr_def store_get_metadata_def store_v2_def)

lemma get_metadata_v3:
  "get_metadata tablet7 3 store_v2 = (Inl (Error NOT_FOUND ''tablet metadata''), store_v2)"
  by (simp add: get_metadata_def tablet7_def store_mgr_def store_get_metadata_def store_v2_def
      empty_store_def not_found_def)

lemma get_metadata_fresh: "get_metadata tablet8 1 store_v2 = (Inr meta_fresh, store_v2)"
  by (simp add: get_metadata_def tablet8_def tablet7_def store_mgr_def store_get_metadata_def
      store_v2_def)

lemma get_schema_pk: "get_schema tablet7_pk s = (Inr (TabletSchema pk_schema_pb), tablet7_pk, s)"
  by (simp add: get_schema_def tablet7_pk_def)

lemma get_schema_dup: "get_schema tablet7_dup s = (Inr (TabletSchema dup_schema_pb), tablet7_dup, s)"
  by (simp add: get_schema_def tablet7_dup_def tablet7_def)

lemma get_schema_hint1:
  "get_schema (tablet7\<lparr>m_version_hint := 1\<rparr>) store_v2 =
     (Inr (TabletSchema pk_schema_pb), tablet7\<lparr>m_version_hint := 1\<rparr>, store_v2)"
  by (simp add: get_schema_def tablet7_def store_mgr_def store_get_schema_def store_v2_def
      meta_v1_def)

lemma get_schema_hint0:
  "get_schema tablet7 store_v2 = (Inl (Error NOT_FOUND ''tablet schema''), tablet7, store_v2)"
  by (simp add: get_schema_def tablet7_def store_mgr_def store_get_schema_def store_v2_def
      empty_store_def not_found_def)

lemma stats_v2:
  "mgr_get_tablet_data_size (m_mgr (tablet7\<lparr>m_version_hint := 2\<rparr>))
     (m_id (tablet7\<lparr>m_version_hint := 2\<rparr>))
     (Some (m_version_hint (tablet7\<lparr>m_version_hint := 2\<rparr>))) store_v2 = (Inr 4096, 2, store_v2)"
  "mgr_get_tablet_num_rows (m_mgr (tablet7\<lparr>m_version_hint := 2\<rparr>))
     (m_id (tablet7\<lparr>m_version_hint := 2\<rparr>))
     (m_version_hint (tablet7\<lparr>m_version_hint := 2\<rparr>)) store_v2 = (Inr 1000, store_v2)"
  by (simp_all add: tablet7_def store_mgr_def store_get_data_size_def store_get_num_rows_def
      store_v2_def meta_v2_def data_rowset_def pred_rowset_def)

lemma stats_v3:
  "mgr_get_tablet_data_size (m_mgr (tablet7\<lparr>m_version_hint := 3\<rparr>))
     (m_id (tablet7\<lparr>m_version_hint := 3\<rparr>))
     (Some (m_version_hint (tablet7\<lparr>m_version_hint := 3\<rparr>))) store_v2 =
       (Inl (Error NOT_FOUND ''tablet metadata''), 3, store_v2)"
  "mgr_get_tablet_num_rows (m_mgr (tablet7\<lparr>m_version_hint := 3\<rparr>))
     (m_id (tablet7\<lparr>m_version_hint := 3\<rparr>))
     (m_version_hint (tablet7\<lparr>m_version_hint := 3\<rparr>)) store_v2 =
       (Inl (Error NOT_FOUND ''tablet metadata''), store_v2)"
  by (simp_all add: tablet7_def store_mgr_def store_get_data_size_def store_get_num_rows_def
      store_v2_def empty_store_def not_found_def)

subsection \<open>Delete predicates\<close>

text \<open>
  C1. Whenever the metadata of version \<open>V\<close> resolves, \<open>has_delete_predicates\<close> returns
  true exactly when some rowset of that snapshot carries a delete predicate, and it
  leaves the manager as the resolution left it; for an empty rowset list the answer is
  false.
\<close>

theorem has_delete_predicates_iff:
  assumes "get_metadata t V s = (Inr metadata, s')"
  shows "has_delete_predicates t V s =
           (Inr (\<exists>rowset \<in> set (md_rowsets metadata). rs_delete_predicate rowset \<noteq> None), s')
         \<and> (md_rowsets metadata = [] \<longrightarrow> has_delete_predicates t V s = (Inr False, s'))"
  using assms
  by (simp add: has_delete_predicates_def scan_delete_predicates_iff has_delete_predicate_def)

theorem has_delete_predicates_iff_witness:
  "get_metadata tablet7 2 store_v2 = (Inr meta_v2, store_v2)
   \<and> has_delete_predicates tablet7 2 store_v2 = (Inr True, store_v2)
   \<and> get_metadata tablet7 1 store_v2 = (Inr meta_v1, store_v2)
   \<and> has_delete_predicates tablet7 1 store_v2 = (Inr False, store_v2)
   \<and> get_metadata tablet8 1 store_v2 = (Inr meta_fresh, store_v2)
   \<and> md_rowsets meta_fresh = []
   \<and> has_delete_predicates tablet8 1 store_v2 = (Inr False, store_v2)"
  using has_delete_predicates_iff [OF get_metadata_v2] has_delete_predicates_iff [OF get_metadata_v1]
    has_delete_predicates_iff [OF get_metadata_fresh]
    get_metadata_v1 get_metadata_v2 get_metadata_fresh
  by (simp add: meta_v1_def meta_v2_def meta_fresh_def data_rowset_def pred_rowset_def)

text \<open>
  C2. \<open>delete_data\<close> hands the manager's pending-log store one transaction log: tablet
  id of the tablet, the given transaction id, and a write operation whose single rowset
  is not overlapped, has no rows, no bytes and no segments, and carries the given
  predicate. Its result is the status (and manager state) of that store call.
\<close>

theorem delete_data_txn_log:
  "delete_data t txn_id P s =
     mgr_put_txn_log_ptr (m_mgr t)
       \<lparr>log_tablet_id = m_id t, log_txn_id = txn_id,
        log_op_write = Some \<lparr>ow_rowset = Some
          \<lparr>rs_overlapped = False, rs_num_rows = 0, rs_data_size = 0, rs_segments = [],
           rs_delete_predicate = Some P\<rparr>\<rparr>\<rparr> s"
  by (simp add: delete_data_def put_txn_log_ptr_def TxnLog_new_def OpWrite_new_def
      RowsetMetadataPB_new_def)

theorem delete_data_txn_log_witness:
  "fst (delete_data tablet7 200 ''k < 5'' store_v2) = OK
   \<and> st_txn_logs (snd (delete_data tablet7 200 ''k < 5'' store_v2)) (7, 200) =
       Some \<lparr>log_tablet_id = 7, log_txn_id = 200,
             log_op_write = Some \<lparr>ow_rowset = Some pred_rowset\<rparr>\<rparr>"
  using delete_data_txn_log [of tablet7 200 "''k < 5''" store_v2]
  by (simp add: tablet7_def store_mgr_def store_put_txn_log_def store_v2_def empty_store_def
      pred_rowset_def)

subsection \<open>Writer selection\<close>

text \<open>
  C3. Once the schema is resolved, \<open>new_writer\<close> picks the writer from the schema's key
  type and the requested type alone: primary keys give the primary-key horizontal or
  vertical writer, any other key type the general horizontal or vertical writer, each
  built from the manager, the tablet id, the schema and the caller's arguments. Two
  calls that resolve the same schema on handles of the same tablet and manager, with the
  same arguments, build equal writers. No argument of \<open>new_writer\<close> holds row data.
\<close>

theorem new_writer_selection:
  assumes "get_schema t s = (Inr sch, t', s')"
  shows "(keys_type sch = PRIMARY_KEYS \<longrightarrow>
            new_writer t kHorizontal txn_id cap pool ic s =
              (Inr (HorizontalPkTabletWriter (m_mgr t) (m_id t) sch txn_id pool ic), t', s')
          \<and> new_writer t kVertical txn_id cap pool ic s =
              (Inr (VerticalPkTabletWriter (m_mgr t) (m_id t) sch txn_id cap pool ic), t', s'))
       \<and> (keys_type sch \<noteq> PRIMARY_KEYS \<longrightarrow>
            new_writer t kHorizontal txn_id cap pool ic s =
              (Inr (HorizontalGeneralTabletWriter (m_mgr t) (m_id t) sch txn_id ic pool), t', s')
          \<and> new_writer t kVertical txn_id cap pool ic s =
              (Inr (VerticalGeneralTabletWriter (m_mgr t) (m_id t) sch txn_id cap ic pool), t', s'))
       \<and> (\<forall>u r u' r'. get_schema u r = (Inr sch, u', r') \<and> m_mgr u = m_mgr t \<and> m_id u = m_id t \<longrightarrow>
            fst (new_writer u ty txn_id cap pool ic r) = fst (new_writer t ty txn_id cap pool ic s))"
proof -
  have same: "m_mgr t' = m_mgr t" "m_id t' = m_id t"
    using get_schema_keeps_identity [OF assms] by simp_all
  have other: "m_mgr u' = m_mgr t \<and> m_id u' = m_id t"
    if "get_schema u r = (Inr sch, u', r')" "m_mgr u = m_mgr t" "m_id u = m_id t" for u r u' r'
    using get_schema_keeps_identity [OF that(1)] that(2,3) by simp
  show ?thesis
    using assms same other by (auto simp: new_writer_def)
qed

theorem new_writer_selection_witness:
  "get_schema tablet7_pk store_v2 = (Inr (TabletSchema pk_schema_pb), tablet7_pk, store_v2)
   \<and> keys_type (TabletSchema pk_schema_pb) = PRIMARY_KEYS
   \<and> fst (new_writer tablet7_pk kHorizontal 5 100 (Some 1) False store_v2) =
       Inr (HorizontalPkTabletWriter store_mgr 7 (TabletSchema pk_schema_pb) 5 (Some 1) False)
   \<and> fst (new_writer tablet7_pk kVertical 5 100 (Some 1) False store_v2) =
       Inr (VerticalPkTabletWriter store_mgr 7 (TabletSchema pk_schema_pb) 5 100 (Some 1) False)
   \<and> get_schema tablet7_dup store_v2 = (Inr (TabletSchema dup_schema_pb), tablet7_dup, store_v2)
   \<and> keys_type (TabletSchema dup_schema_pb) \<noteq> PRIMARY_KEYS
   \<and> fst (new_writer tablet7_dup kHorizontal 5 100 (Some 1) False store_v2) =
       Inr (HorizontalGeneralTabletWriter store_mgr 7 (TabletSchema dup_schema_pb) 5 False (Some 1))
   \<and> fst (new_writer tablet7_dup kVertical 5 100 (Some 1) False store_v2) =
       Inr (VerticalGeneralTabletWriter store_mgr 7 (TabletSchema dup_schema_pb) 5 100 False (Some 1))
   \<and> get_schema (tablet7\<lparr>m_version_hint := 1\<rparr>) store_v2 =
       (Inr (TabletSchema pk_schema_pb), tablet7\<lparr>m_version_hint := 1\<rparr>, store_v2)
   \<and> fst (new_writer (tablet7\<lparr>m_version_hint := 1\<rparr>) kVertical 5 100 (Some 1) False store_v2) =
       fst (new_writer tablet7_pk kVertical 5 100 (Some 1) False store_v2)"
proof -
  have pk: "keys_type (TabletSchema pk_schema_pb) = PRIMARY_KEYS"
    by (simp add: keys_type_def pk_schema_pb_def)
  have dup: "keys_type (TabletSchema dup_schema_pb) \<noteq> PRIMARY_KEYS"
    by (simp add: keys_type_def dup_schema_pb_def)
  have ids: "m_mgr tablet7_pk = store_mgr" "m_id tablet7_pk = 7"
    "m_mgr tablet7_dup = store_mgr" "m_id tablet7_dup = 7"
    "m_mgr (tablet7\<lparr>m_version_hint := 1\<rparr>) = m_mgr tablet7_pk"
    "m_id (tablet7\<lparr>m_version_hint := 1\<rparr>) = m_id tablet7_pk"
    by (simp_all add: tablet7_pk_def tablet7_dup_def tablet7_def)
  note a = new_writer_selection [OF get_schema_pk [of store_v2], of 5 100 "Some 1" False kVertical]
  note b = new_writer_selection [OF get_schema_dup [of store_v2], of 5 100 "Some 1" False kVertical]
  from a have c:
    "fst (new_writer (tablet7\<lparr>m_version_hint := 1\<rparr>) kVertical 5 100 (Some 1) False store_v2) =
       fst (new_writer tablet7_pk kVertical 5 100 (Some 1) False store_v2)"
    using get_schema_hint1 ids(5,6) by blast
  show ?thesis
    using a b c pk dup ids get_schema_pk get_schema_dup get_schema_hint1 by simp
qed

text \<open>
  C4 (as the code has it). \<open>new_writer\<close> does not look at the row cap. Asked for a
  vertical writer with \<open>max_rows_per_segment = 0\<close>, it returns the vertical writer of
  the schema's key type, built with row cap 0, whenever the schema resolves; and when
  the schema lookup fails it returns that lookup's error unchanged, which is its only
  way to fail.
\<close>

theorem new_writer_vertical_zero_cap:
  "(get_schema t s = (Inr sch, t', s') \<longrightarrow>
      new_writer t kVertical txn_id 0 pool ic s =
        (Inr (if keys_type sch = PRIMARY_KEYS
              then VerticalPkTabletWriter (m_mgr t) (m_id t) sch txn_id 0 pool ic
              else VerticalGeneralTabletWriter (m_mgr t) (m_id t) sch txn_id 0 ic pool), t', s'))
   \<and> (get_schema t s = (Inl e, t', s') \<longrightarrow>
        new_writer t kVertical txn_id 0 pool ic s = (Inl e, t', s'))"
proof (intro conjI impI)
  assume g: "get_schema t s = (Inr sch, t', s')"
  from get_schema_keeps_identity [OF g] g
  show "new_writer t kVertical txn_id 0 pool ic s =
        (Inr (if keys_type sch = PRIMARY_KEYS
              then VerticalPkTabletWriter (m_mgr t) (m_id t) sch txn_id 0 pool ic
              else VerticalGeneralTabletWriter (m_mgr t) (m_id t) sch txn_id 0 ic pool), t', s')"
    by (simp add: new_writer_def)
next
  assume "get_schema t s = (Inl e, t', s')"
  then show "new_writer t kVertical txn_id 0 pool ic s = (Inl e, t', s')"
    by (simp add: new_writer_def)
qed

theorem new_writer_vertical_zero_cap_witness:
  "get_schema tablet7_dup store_v2 = (Inr (TabletSchema dup_schema_pb), tablet7_dup, store_v2)
   \<and> fst (new_writer tablet7_dup kVertical 5 0 None True store_v2) =
       Inr (VerticalGeneralTabletWriter store_mgr 7 (TabletSchema dup_schema_pb) 5 0 True None)
   \<and> get_schema tablet7 store_v2 = (Inl (Error NOT_FOUND ''tablet schema''), tablet7, store_v2)
   \<and> fst (new_writer tablet7 kVertical 5 0 None True store_v2) =
       Inl (Error NOT_FOUND ''tablet schema'')"
  using new_writer_vertical_zero_cap [of tablet7_dup store_v2 "TabletSchema dup_schema_pb"
      tablet7_dup store_v2 5 None True]
    new_writer_vertical_zero_cap [of tablet7 store_v2 _ tablet7 store_v2 5 None True
      "Error NOT_FOUND ''tablet schema''"]
    get_schema_dup [of store_v2] get_schema_hint0
  by (simp add: keys_type_def dup_schema_pb_def tablet7_dup_def tablet7_def)

text \<open>
  C4 as stated fails: on tablet 7 with version hint 1 the schema is read from the store,
  and the call with a vertical type and row cap 0 succeeds with a primary-key vertical
  writer whose row cap is 0, instead of an InvalidArgument error raised before any
  store access.
\<close>

theorem new_writer_zero_cap_accepted:
  "new_writer (tablet7\<lparr>m_version_hint := 1\<rparr>) kVertical 5 0 None False store_v2 =
     (Inr (VerticalPkTabletWriter store_mgr 7 (TabletSchema pk_schema_pb) 5 0 None False),
      tablet7\<lparr>m_version_hint := 1\<rparr>, store_v2)"
  using get_schema_hint1
  by (simp add: new_writer_def keys_type_def pk_schema_pb_def tablet7_def)

subsection \<open>Statistics\<close>

text \<open>
  C5. \<open>data_size\<close> and \<open>num_rows\<close> return 0 and log one warning (naming the tablet and
  the error) when the manager's lookup fails, whatever the error; when the lookup
  succeeds they return its value and log nothing. For \<open>num_rows\<close> this is the behaviour
  once its DCHECK has passed, that is, in a build without DCHECKs or with a nonzero
  version hint.
\<close>

theorem statistics_default_on_error:
  "(mgr_get_tablet_data_size (m_mgr t) (m_id t) (Some (m_version_hint t)) s = (Inl e, h, s') \<longrightarrow>
      data_size t s =
        (0, [\<lparr>log_severity = WARNING,
              log_pieces = [Str ''failed to get tablet '', I64 (m_id t), Str '' data size: '', St e]\<rparr>],
         t\<lparr>m_version_hint := h\<rparr>, s'))
   \<and> (mgr_get_tablet_data_size (m_mgr t) (m_id t) (Some (m_version_hint t)) s = (Inr v, h, s') \<longrightarrow>
        data_size t s = (v, [], t\<lparr>m_version_hint := h\<rparr>, s'))
   \<and> ((dcheck_on \<longrightarrow> m_version_hint t \<noteq> 0) \<longrightarrow>
        (mgr_get_tablet_num_rows (m_mgr t) (m_id t) (m_version_hint t) s = (Inl e, s') \<longrightarrow>
           num_rows dcheck_on t s =
             Some (0, [\<lparr>log_severity = WARNING,
                        log_pieces = [Str ''failed to get tablet rows num'', I64 (m_id t),
                                      Str ''num rows: '', St e]\<rparr>], s'))
        \<and> (mgr_get_tablet_num_rows (m_mgr t) (m_id t) (m_version_hint t) s = (Inr v, s') \<longrightarrow>
             num_rows dcheck_on t s = Some (v, [], s')))"
  by (auto simp: data_size_def num_rows_def)

theorem statistics_default_on_error_witness:
  "fst (data_size (tablet7\<lparr>m_version_hint := 3\<rparr>) store_v2) = 0
   \<and> map log_severity (fst (snd (data_size (tablet7\<lparr>m_version_hint := 3\<rparr>) store_v2))) = [WARNING]
   \<and> fst (data_size (tablet7\<lparr>m_version_hint := 2\<rparr>) store_v2) = 4096
   \<and> fst (snd (data_size (tablet7\<lparr>m_version_hint := 2\<rparr>) store_v2)) = []
   \<and> m_version_hint (tablet7\<lparr>m_version_hint := 3\<rparr>) \<noteq> 0
   \<and> num_rows True (tablet7\<lparr>m_version_hint := 3\<rparr>) store_v2 =
       Some (0, [\<lparr>log_severity = WARNING,
                  log_pieces = [Str ''failed to get tablet rows num'', I64 7, Str ''num rows: '',
                                St (Error NOT_FOUND ''tablet metadata'')]\<rparr>], store_v2)
   \<and> num_rows True (tablet7\<lparr>m_version_hint := 2\<rparr>) store_v2 = Some (1000, [], store_v2)"
proof -
  have h: "m_version_hint (tablet7\<lparr>m_version_hint := 3\<rparr>) \<noteq> 0"
    "m_version_hint (tablet7\<lparr>m_version_hint := 2\<rparr>) \<noteq> 0"
    "m_id (tablet7\<lparr>m_version_hint := 3\<rparr>) = 7"
    by (simp_all add: tablet7_def)
  note a = statistics_default_on_error [of "tablet7\<lparr>m_version_hint := 3\<rparr>" store_v2
      "Error NOT_FOUND ''tablet metadata''" 3 store_v2 _ True]
  note b = statistics_default_on_error [of "tablet7\<lparr>m_version_hint := 2\<rparr>" store_v2
      _ 2 store_v2 4096 True]
  note c = statistics_default_on_error [of "tablet7\<lparr>m_version_hint := 2\<rparr>" store_v2
      _ 2 store_v2 1000 True]
  show ?thesis
    using a b c h stats_v2 stats_v3 by simp
qed

subsection \<open>Rowsets of a version\<close>

text \<open>
  C6. \<open>get_rowsets\<close> at version \<open>V\<close> first resolves the metadata of \<open>V\<close>. An error of
  that resolution, such as the NotFound of a version without metadata, is returned as it
  is; otherwise the result is the rowset list that \<^verbatim>\<open>Rowset::get_rowsets\<close> extracts
  from the resolved metadata. The manager is left as the resolution left it.
\<close>

theorem get_rowsets_resolve_then_extract:
  "(get_metadata t V s = (Inl e, s') \<longrightarrow> get_rowsets extract t V s = (Inl e, s'))
   \<and> (get_metadata t V s = (Inr metadata, s') \<longrightarrow>
        get_rowsets extract t V s = (Inr (extract (m_mgr t) metadata), s'))"
  by (simp add: get_rowsets_def get_rowsets_of_def)

theorem get_rowsets_resolve_then_extract_witness:
  "st_metadata store_v2 (7, 3) = None
   \<and> get_metadata tablet7 3 store_v2 = (Inl (Error NOT_FOUND ''tablet metadata''), store_v2)
   \<and> get_rowsets (\<lambda>m. md_rowsets) tablet7 3 store_v2 =
       (Inl (Error NOT_FOUND ''tablet metadata''), store_v2)
   \<and> get_metadata tablet7 2 store_v2 = (Inr meta_v2, store_v2)
   \<and> get_rowsets (\<lambda>m. md_rowsets) tablet7 2 store_v2 = (Inr [data_rowset, pred_rowset], store_v2)"
  using get_rowsets_resolve_then_extract [of tablet7 3 store_v2 "Error NOT_FOUND ''tablet metadata''"
      store_v2 "\<lambda>m. md_rowsets"]
    get_rowsets_resolve_then_extract [of tablet7 2 store_v2 _ store_v2 "\<lambda>m. md_rowsets" meta_v2]
    get_metadata_v2 get_metadata_v3
  by (simp add: meta_v2_def store_v2_def empty_store_def)

subsection \<open>Schema lookup\<close>

text \<open>
  C7. \<open>get_schema\<close> with a cached schema returns it, and with no cached schema but
  cached metadata returns the schema built from that metadata; in both cases the result
  is the same whatever the manager is, and the tablet and the manager's state are
  untouched. Only with neither cached does it call the manager's schema lookup, with the
  tablet id and the version hint; it returns that lookup's result and keeps the hint the
  lookup left.
\<close>

theorem get_schema_cache_order:
  "(m_tablet_schema t = Some sch \<longrightarrow>
      (\<forall>g. get_schema (t\<lparr>m_mgr := g\<rparr>) s = (Inr sch, t\<lparr>m_mgr := g\<rparr>, s)))
   \<and> (m_tablet_schema t = None \<and> m_tablet_metadata t = Some metadata \<longrightarrow>
        (\<forall>g. get_schema (t\<lparr>m_mgr := g\<rparr>) s =
               (Inr (TabletSchema (md_schema metadata)), t\<lparr>m_mgr := g\<rparr>, s)))
   \<and> (m_tablet_schema t = None \<and> m_tablet_metadata t = None
        \<and> mgr_get_tablet_schema (m_mgr t) (m_id t) (Some (m_version_hint t)) s = (r, h, s') \<longrightarrow>
        get_schema t s = (r, t\<lparr>m_version_hint := h\<rparr>, s'))"
  by (simp add: get_schema_def)

theorem get_schema_cache_order_witness:
  "m_tablet_schema tablet7_pk = Some (TabletSchema pk_schema_pb)
   \<and> get_schema (tablet7_pk\<lparr>m_mgr := failing_mgr\<rparr>) store_v2 =
       (Inr (TabletSchema pk_schema_pb), tablet7_pk\<lparr>m_mgr := failing_mgr\<rparr>, store_v2)
   \<and> m_tablet_schema tablet7_dup = None
   \<and> m_tablet_metadata tablet7_dup = Some (meta_v1\<lparr>md_schema := dup_schema_pb\<rparr>)
   \<and> get_schema (tablet7_dup\<lparr>m_mgr := failing_mgr\<rparr>) store_v2 =
       (Inr (TabletSchema dup_schema_pb), tablet7_dup\<lparr>m_mgr := failing_mgr\<rparr>, store_v2)
   \<and> m_tablet_schema (tablet7\<lparr>m_version_hint := 1\<rparr>) = None
   \<and> m_tablet_metadata (tablet7\<lparr>m_version_hint := 1\<rparr>) = None
   \<and> get_schema (tablet7\<lparr>m_version_hint := 1\<rparr>) store_v2 =
       (Inr (TabletSchema pk_schema_pb), tablet7\<lparr>m_version_hint := 1\<rparr>, store_v2)
   \<and> fst (get_schema (tablet7\<lparr>m_version_hint := 1, m_mgr := failing_mgr\<rparr>) store_v2) =
       Inl (Error IO_ERROR ''store down'')"
proof -
  have c: "m_tablet_schema tablet7_pk = Some (TabletSchema pk_schema_pb)"
    "m_tablet_schema tablet7_dup = None"
    "m_tablet_metadata tablet7_dup = Some (meta_v1\<lparr>md_schema := dup_schema_pb\<rparr>)"
    "m_tablet_schema (tablet7\<lparr>m_version_hint := 1\<rparr>) = None"
    "m_tablet_metadata (tablet7\<lparr>m_version_hint := 1\<rparr>) = None"
    "m_tablet_schema (tablet7\<lparr>m_version_hint := 1, m_mgr := failing_mgr\<rparr>) = None"
    "m_tablet_metadata (tablet7\<lparr>m_version_hint := 1, m_mgr := failing_mgr\<rparr>) = None"
    by (simp_all add: tablet7_pk_def tablet7_dup_def tablet7_def)
  have l1: "mgr_get_tablet_schema (m_mgr (tablet7\<lparr>m_version_hint := 1\<rparr>))
      (m_id (tablet7\<lparr>m_version_hint := 1\<rparr>)) (Some (m_version_hint (tablet7\<lparr>m_version_hint := 1\<rparr>)))
      store_v2 = (Inr (TabletSchema pk_schema_pb), 1, store_v2)"
    by (simp add: tablet7_def store_mgr_def store_get_schema_def store_v2_def meta_v1_def)
  have l2: "mgr_get_tablet_schema (m_mgr (tablet7\<lparr>m_version_hint := 1, m_mgr := failing_mgr\<rparr>))
      (m_id (tablet7\<lparr>m_version_hint := 1, m_mgr := failing_mgr\<rparr>))
      (Some (m_version_hint (tablet7\<lparr>m_version_hint := 1, m_mgr := failing_mgr\<rparr>)))
      store_v2 = (Inl (Error IO_ERROR ''store down''), 0, store_v2)"
    by (simp add: failing_mgr_def)
  note a = get_schema_cache_order [of tablet7_pk "TabletSchema pk_schema_pb" store_v2]
  note b = get_schema_cache_order [of tablet7_dup _ store_v2 "meta_v1\<lparr>md_schema := dup_schema_pb\<rparr>"]
  note d = get_schema_cache_order [of "tablet7\<lparr>m_version_hint := 1\<rparr>" _ store_v2 _
      "Inr (TabletSchema pk_schema_pb)" 1 store_v2]
  note e = get_schema_cache_order [of "tablet7\<lparr>m_version_hint := 1, m_mgr := failing_mgr\<rparr>" _
      store_v2 _ "Inl (Error IO_ERROR ''store down'')" 0 store_v2]
  have a': "get_schema (tablet7_pk\<lparr>m_mgr := failing_mgr\<rparr>) store_v2 =
       (Inr (TabletSchema pk_schema_pb), tablet7_pk\<lparr>m_mgr := failing_mgr\<rparr>, store_v2)"
    using a c(1) by blast
  have b': "get_schema (tablet7_dup\<lparr>m_mgr := failing_mgr\<rparr>) store_v2 =
       (Inr (TabletSchema dup_schema_pb), tablet7_dup\<lparr>m_mgr := failing_mgr\<rparr>, store_v2)"
    using b c(2,3) by simp
  have d': "get_schema (tablet7\<lparr>m_version_hint := 1\<rparr>) store_v2 =
       (Inr (TabletSchema pk_schema_pb), tablet7\<lparr>m_version_hint := 1\<rparr>, store_v2)"
    using d c(4,5) l1 by simp
  have e': "fst (get_schema (tablet7\<lparr>m_version_hint := 1, m_mgr := failing_mgr\<rparr>) store_v2) =
       Inl (Error IO_ERROR ''store down'')"
    using e c(6,7) l2 by simp
  show ?thesis
    using a' b' d' e' c by simp
qed

text \<open>
  C10. \<open>tablet_schema\<close> hides a failed lookup: whatever the error of the manager's
  schema lookup (asked with a null hint), it returns a null pointer, and the schema
  itself when the lookup succeeds. \<open>get_schema\<close>, when it has to ask the manager,
  returns the lookup's error to its caller.
\<close>

theorem tablet_schema_swallows_failure:
  "(mgr_get_tablet_schema (m_mgr t) (m_id t) None s = (Inl e, h, s') \<longrightarrow>
      tablet_schema t s = (None, s'))
   \<and> (mgr_get_tablet_schema (m_mgr t) (m_id t) None s = (Inr sch, h, s') \<longrightarrow>
        tablet_schema t s = (Some sch, s'))
   \<and> (m_tablet_schema t = None \<and> m_tablet_metadata t = None
        \<and> mgr_get_tablet_schema (m_mgr t) (m_id t) (Some (m_version_hint t)) s = (Inl e2, h2, s2) \<longrightarrow>
        get_schema t s = (Inl e2, t\<lparr>m_version_hint := h2\<rparr>, s2))"
  by (simp add: tablet_schema_def get_schema_def)

theorem tablet_schema_swallows_failure_witness:
  "mgr_get_tablet_schema (m_mgr tablet7) (m_id tablet7) None store_v2 =
       (Inl (Error NOT_FOUND ''tablet schema''), 0, store_v2)
   \<and> tablet_schema tablet7 store_v2 = (None, store_v2)
   \<and> tablet_schema (tablet7\<lparr>m_mgr := failing_mgr\<rparr>) store_v2 = (None, store_v2)
   \<and> fst (tablet_schema
            (tablet7\<lparr>m_mgr := store_mgr\<lparr>mgr_get_tablet_schema :=
               (\<lambda>tid hint s. (Inr (TabletSchema pk_schema_pb), 0, s))\<rparr>\<rparr>) store_v2) =
       Some (TabletSchema pk_schema_pb)
   \<and> fst (get_schema (tablet7\<lparr>m_mgr := failing_mgr\<rparr>) store_v2) =
       Inl (Error IO_ERROR ''store down'')"
proof -
  let ?ok = "tablet7\<lparr>m_mgr := store_mgr\<lparr>mgr_get_tablet_schema :=
               (\<lambda>tid hint s. (Inr (TabletSchema pk_schema_pb), 0, s))\<rparr>\<rparr>"
  have l0: "mgr_get_tablet_schema (m_mgr tablet7) (m_id tablet7) None store_v2 =
       (Inl (Error NOT_FOUND ''tablet schema''), 0, store_v2)"
    by (simp add: tablet7_def store_mgr_def store_get_schema_def not_found_def)
  have l1: "mgr_get_tablet_schema (m_mgr (tablet7\<lparr>m_mgr := failing_mgr\<rparr>))
       (m_id (tablet7\<lparr>m_mgr := failing_mgr\<rparr>)) hint store_v2 =
       (Inl (Error IO_ERROR ''store down''), 0, store_v2)" for hint
    by (simp add: failing_mgr_def)
  have l2: "mgr_get_tablet_schema (m_mgr ?ok) (m_id ?ok) None store_v2 =
       (Inr (TabletSchema pk_schema_pb), 0, store_v2)"
    by simp
  have c: "m_tablet_schema (tablet7\<lparr>m_mgr := failing_mgr\<rparr>) = None"
    "m_tablet_metadata (tablet7\<lparr>m_mgr := failing_mgr\<rparr>) = None"
    by (simp_all add: tablet7_def)
  note a = tablet_schema_swallows_failure [of tablet7 store_v2
      "Error NOT_FOUND ''tablet schema''" 0 store_v2]
  note b = tablet_schema_swallows_failure [of "tablet7\<lparr>m_mgr := failing_mgr\<rparr>" store_v2
      "Error IO_ERROR ''store down''" 0 store_v2 _ "Error IO_ERROR ''store down''" 0 store_v2]
  note d = tablet_schema_swallows_failure [of ?ok store_v2 _ 0 store_v2 "TabletSchema pk_schema_pb"]
  have a': "tablet_schema tablet7 store_v2 = (None, store_v2)"
    using a l0 by simp
  have b': "tablet_schema (tablet7\<lparr>m_mgr := failing_mgr\<rparr>) store_v2 = (None, store_v2)"
    "fst (get_schema (tablet7\<lparr>m_mgr := failing_mgr\<rparr>) store_v2) = Inl (Error IO_ERROR ''store down'')"
    using b l1 c by simp_all
  have d': "fst (tablet_schema ?ok store_v2) = Some (TabletSchema pk_schema_pb)"
    using d l2 by simp
  show ?thesis
    using a' b' d' l0 by simp
qed

subsection \<open>Statistics at the hinted version\<close>

text \<open>
  C9. \<open>num_rows\<close> starts with the check that the version hint is not 0: in a build with
  DCHECKs a hint of 0 aborts the call. With a nonzero hint the check passes in every
  build, the manager's row-count lookup is made for the tablet id at exactly the hinted
  version, and \<open>num_rows\<close> returns with that lookup's value (0 when it failed) and the
  state it left.
\<close>

theorem num_rows_version_hint_precondition:
  "(m_version_hint t = 0 \<longrightarrow> num_rows True t s = None)
   \<and> (m_version_hint t \<noteq> 0
        \<and> mgr_get_tablet_num_rows (m_mgr t) (m_id t) (m_version_hint t) s = (r, s') \<longrightarrow>
        (\<exists>logged. num_rows dcheck_on t s =
                    Some (case r of Inl e \<Rightarrow> 0 | Inr n \<Rightarrow> n, logged, s')))"
  by (auto simp: num_rows_def split: sum.splits)

theorem num_rows_version_hint_precondition_witness:
  "m_version_hint tablet7 = 0
   \<and> num_rows True tablet7 store_v2 = None
   \<and> m_version_hint (tablet7\<lparr>m_version_hint := 2\<rparr>) \<noteq> 0
   \<and> (\<exists>logged. num_rows True (tablet7\<lparr>m_version_hint := 2\<rparr>) store_v2 =
                 Some (1000, logged, store_v2))"
proof -
  have h: "m_version_hint tablet7 = 0" "m_version_hint (tablet7\<lparr>m_version_hint := 2\<rparr>) \<noteq> 0"
    by (simp_all add: tablet7_def)
  note a = num_rows_version_hint_precondition [of tablet7 store_v2]
  note b = num_rows_version_hint_precondition [of "tablet7\<lparr>m_version_hint := 2\<rparr>" store_v2
      "Inr 1000" store_v2 True]
  have a': "num_rows True tablet7 store_v2 = None"
    using a h(1) by blast
  have b': "\<exists>logged. num_rows True (tablet7\<lparr>m_version_hint := 2\<rparr>) store_v2 =
                 Some (1000, logged, store_v2)"
    using b h(2) stats_v2(2) by simp
  show ?thesis
    using a' b' h by simp
qed

subsection \<open>Locations\<close>

text \<open>
  C8. Each location accessor is a const method that returns a string and nothing else.
  Its result is fixed by the tablet id and the argument (for the given location provider
  and manager): two tablet handles with the same id, provider and manager get the same
  string from each of the ten accessors, whatever version hint, schema or metadata
  either of them holds.
\<close>

theorem locations_depend_on_id_only:
  assumes "m_id t = m_id u" and "m_location_provider t = m_location_provider u"
    and "m_mgr t = m_mgr u"
  shows "metadata_location t version = metadata_location u version
       \<and> metadata_root_location t = metadata_root_location u
       \<and> txn_log_location t txn_id = txn_log_location u txn_id
       \<and> txn_slog_location t txn_id = txn_slog_location u txn_id
       \<and> txn_vlog_location t version = txn_vlog_location u version
       \<and> segment_location t name = segment_location u name
       \<and> del_location t name = del_location u name
       \<and> delvec_location t name = delvec_location u name
       \<and> sst_location t name = sst_location u name
       \<and> root_location t = root_location u"
  using assms
  by (simp add: metadata_location_def metadata_root_location_def txn_log_location_def
      txn_slog_location_def txn_vlog_location_def segment_location_def del_location_def
      delvec_location_def sst_location_def root_location_def)

theorem locations_depend_on_id_only_witness:
  "m_id tablet7 = m_id (tablet7_pk\<lparr>m_version_hint := 2\<rparr>)
   \<and> m_location_provider tablet7 = m_location_provider (tablet7_pk\<lparr>m_version_hint := 2\<rparr>)
   \<and> m_mgr tablet7 = m_mgr (tablet7_pk\<lparr>m_version_hint := 2\<rparr>)
   \<and> metadata_location tablet7 3 = metadata_location (tablet7_pk\<lparr>m_version_hint := 2\<rparr>) 3
   \<and> txn_slog_location tablet7 200 = txn_slog_location (tablet7_pk\<lparr>m_version_hint := 2\<rparr>) 200
   \<and> sst_location tablet7 ''x.sst'' = sst_location (tablet7_pk\<lparr>m_version_hint := 2\<rparr>) ''x.sst''
   \<and> root_location tablet7 = root_location (tablet7_pk\<lparr>m_version_hint := 2\<rparr>)"
proof -
  have h: "m_id tablet7 = m_id (tablet7_pk\<lparr>m_version_hint := 2\<rparr>)"
    "m_location_provider tablet7 = m_location_provider (tablet7_pk\<lparr>m_version_hint := 2\<rparr>)"
    "m_mgr tablet7 = m_mgr (tablet7_pk\<lparr>m_version_hint := 2\<rparr>)"
    by (simp_all add: tablet7_pk_def)
  show ?thesis
    using locations_depend_on_id_only [OF h, of 3 200 "''x.sst''"] h by simp
qed

end
